theory Spec2Isabelle
  imports Main "HOL-Library.Char_ord" "HOL-Library.List_Lexorder"
begin

section \<open>Strings and thrown values\<close>

text \<open>
  JavaScript strings are modelled as \<^typ>\<open>string\<close>. The line feed of the template
  literals (\<^verbatim>\<open>\n\<close>) is the character with code 10.
\<close>

definition nl :: char where
  "nl = CHR 0x0A"

text \<open>Decimal rendering of an integer, as a template literal renders a number.\<close>

definition digitChar :: "nat \<Rightarrow> char" where
  "digitChar d = ''0123456789'' ! d"

fun showNat :: "nat \<Rightarrow> string" where
  "showNat n = (if n < 10 then [digitChar n] else showNat (n div 10) @ [digitChar (n mod 10)])"

definition showInt :: "int \<Rightarrow> string" where
  "showInt i = (if i < 0 then CHR ''-'' # showNat (nat (- i)) else showNat (nat i))"

text \<open>
  A thrown value, told apart by what the handlers' \<^verbatim>\<open>catch\<close> blocks do with it, which
  is \<^verbatim>\<open>error instanceof Error ? error.message : String(error)\<close>: an \<^verbatim>\<open>Error\<close> object with
  its message; any other value that \<^verbatim>\<open>String(error)\<close> converts, kept as the text it gives;
  or a value for which that conversion itself throws, kept with what it throws.
  \<open>errorText\<close> is the expression: \<open>Inr\<close> the message, \<open>Inl\<close> what it throws.
\<close>

datatype js_error = Error string | Thrown string | Unprintable js_error

fun errorText :: "js_error \<Rightarrow> js_error + string" where
  "errorText (Error message) = Inr message"
| "errorText (Thrown shown) = Inr shown"
| "errorText (Unprintable thrown) = Inl thrown"

section \<open>logger.ts\<close>

datatype LogLevel = LDebug | LInfo | LWarn | LError | LSilent

fun LOG_LEVELS :: "LogLevel \<Rightarrow> nat" where
  "LOG_LEVELS LDebug = 0"
| "LOG_LEVELS LInfo = 1"
| "LOG_LEVELS LWarn = 2"
| "LOG_LEVELS LError = 3"
| "LOG_LEVELS LSilent = 4"

record Logger =
  currentLevel :: LogLevel

text \<open>
  The two console channels the logger could write to: \<^verbatim>\<open>console.error\<close> appends to
  \<open>errorCalls\<close>, \<^verbatim>\<open>console.log\<close> would append to \<open>logCalls\<close>.
\<close>

record Console =
  errorCalls :: "string list"
  logCalls :: "string list"

definition console_error :: "string \<Rightarrow> Console \<Rightarrow> Console" where
  "console_error line con = con\<lparr>errorCalls := errorCalls con @ [line]\<rparr>"

definition setLevel :: "LogLevel \<Rightarrow> Logger \<Rightarrow> Logger" where
  "setLevel level lg = lg\<lparr>currentLevel := level\<rparr>"

definition getLevel :: "Logger \<Rightarrow> LogLevel" where
  "getLevel lg = currentLevel lg"

definition shouldLog :: "Logger \<Rightarrow> LogLevel \<Rightarrow> bool" where
  "shouldLog lg level = (LOG_LEVELS level \<ge> LOG_LEVELS (currentLevel lg))"

text \<open>
  \<^verbatim>\<open>toUpperCase\<close> on the ASCII letters, which is all that \<open>format\<close> is called with
  (the four literal level names).
\<close>

definition toUpperCaseChar :: "char \<Rightarrow> char" where
  "toUpperCaseChar c =
     (case map_of (zip ''abcdefghijklmnopqrstuvwxyz'' ''ABCDEFGHIJKLMNOPQRSTUVWXYZ'') c of
        Some u \<Rightarrow> u
      | None \<Rightarrow> c)"

definition toUpperCase :: "string \<Rightarrow> string" where
  "toUpperCase s = map toUpperCaseChar s"

definition format :: "string \<Rightarrow> string \<Rightarrow> string" where
  "format level message = ''['' @ toUpperCase level @ ''] '' @ message"

definition debug :: "Logger \<Rightarrow> string \<Rightarrow> Console \<Rightarrow> Console" where
  "debug lg message con =
     (if shouldLog lg LDebug then console_error (format ''debug'' message) con else con)"

definition info :: "Logger \<Rightarrow> string \<Rightarrow> Console \<Rightarrow> Console" where
  "info lg message con =
     (if shouldLog lg LInfo then console_error (format ''info'' message) con else con)"

definition warn :: "Logger \<Rightarrow> string \<Rightarrow> Console \<Rightarrow> Console" where
  "warn lg message con =
     (if shouldLog lg LWarn then console_error (format ''warn'' message) con else con)"

definition error :: "Logger \<Rightarrow> string \<Rightarrow> Console \<Rightarrow> Console" where
  "error lg message con =
     (if shouldLog lg LError then console_error (format ''error'' message) con else con)"

section \<open>index.ts: the SSH executor adapter\<close>

record CommandResult =
  stdout :: string
  stderr :: string
  exitCode :: int

text \<open>
  Running a remote command is an effect: it is a function of the command and of a state
  \<open>'s\<close> (the session, the remote host), returning the outcome and the next state.
  \<open>Inl\<close> is a rejected promise (a thrown value), \<open>Inr\<close> a resolved one.

  \<^verbatim>\<open>sshManager.executeCommand\<close> lives in ssh-manager.ts; the adapter is modelled over
  any such function. An empty \<^verbatim>\<open>result.stderr\<close> is falsy, so the guard reads
  \<^verbatim>\<open>exitCode !== 0\<close> and \<^verbatim>\<open>stderr\<close> non-empty.
\<close>

type_synonym 's SSHExecutor = "string \<Rightarrow> 's \<Rightarrow> (js_error + string) \<times> 's"

definition cmdPreview :: "string \<Rightarrow> string" where
  "cmdPreview command = (if length command > 100 then take 100 command @ ''...'' else command)"

definition sshExecutor ::
  "(string \<Rightarrow> 's \<Rightarrow> (js_error + CommandResult) \<times> 's) \<Rightarrow> 's SSHExecutor" where
  "sshExecutor executeCommand command s =
     (case executeCommand command s of
        (Inl e, s') \<Rightarrow> (Inl e, s')
      | (Inr result, s') \<Rightarrow>
          if exitCode result \<noteq> 0 \<and> stderr result \<noteq> []
          then (Inl (Error (''Command failed (exit '' @ showInt (exitCode result) @ ''): ''
                            @ cmdPreview command @ [nl] @ stderr result)), s')
          else (Inr (stdout result), s'))"

text \<open>A remote command that exits with code 1 and nothing on stderr.\<close>

definition exitOneSilently :: "string \<Rightarrow> unit \<Rightarrow> (js_error + CommandResult) \<times> unit" where
  "exitOneSilently command s = (Inr \<lparr>stdout = ''partial'', stderr = [], exitCode = 1\<rparr>, s)"

section \<open>Tool handlers\<close>

text \<open>
  The eighteen tools that the sources register: \<^verbatim>\<open>registerVMTools\<close> and
  \<^verbatim>\<open>registerDockerAdvancedTools\<close> (both in src/vm-tools.ts),
  \<^verbatim>\<open>registerDockerNetworkTools\<close> (src/docker-network-tools.ts) and
  \<^verbatim>\<open>registerMonitoringTools\<close> (the last part of the file under .holocode/proposed).
\<close>

text \<open>
  A handler's return value \<^verbatim>\<open>{content: [{type: "text", text}], isError?}\<close>; an absent
  \<^verbatim>\<open>isError\<close> is \<open>False\<close>.
\<close>

datatype Content = TextContent string

record ToolResult =
  content :: "Content list"
  isError :: bool

definition textResult :: "string \<Rightarrow> ToolResult" where
  "textResult t = \<lparr>content = [TextContent t], isError = False\<rparr>"

text \<open>
  Every outer \<^verbatim>\<open>catch (error)\<close> block of the handlers: it builds the message with
  \<^verbatim>\<open>error instanceof Error ? error.message : String(error)\<close> and returns it with
  \<^verbatim>\<open>isError: true\<close>. When that conversion itself throws, the handler's promise is
  rejected with what it threw.
\<close>

definition catchBlock :: "string \<Rightarrow> js_error \<Rightarrow> js_error + ToolResult" where
  "catchBlock prefix e =
     (case errorText e of
        Inr message \<Rightarrow> Inr \<lparr>content = [TextContent (prefix @ message)], isError = True\<rparr>
      | Inl thrown \<Rightarrow> Inl thrown)"

definition sq :: char where
  "sq = CHR 0x27"

definition dq :: char where
  "dq = CHR 0x22"

text \<open>
  What the handlers use of the language itself is a parameter of the model, so that every
  property below holds whatever these built-ins do:
  \<^item> \<open>trim\<close> is \<^verbatim>\<open>String.prototype.trim\<close>;
  \<^item> \<open>'n\<close> is the type of numbers, \<open>numberLiteral\<close> a numeric literal of the source,
    \<open>numberAdd\<close> the operator \<^verbatim>\<open>+\<close> on numbers and \<open>numberToString\<close> the conversion that
    a template literal applies to a number;
  \<^item> \<open>'v\<close> is the type of values that \<^verbatim>\<open>JSON.parse\<close> returns; \<open>jsonParse\<close> throws a
    \<^verbatim>\<open>SyntaxError\<close> (\<open>Inl\<close>, with its message) or returns a value, which
    \<open>jsonStringify\<close> renders as \<^verbatim>\<open>JSON.stringify(value, null, 2)\<close> does;
  \<^item> \<open>getMember\<close> reads a property (\<^verbatim>\<open>c.Status\<close>), \<open>callIncludes\<close> is the call
    \<^verbatim>\<open>value.includes(text)\<close> and \<open>templateString\<close> the conversion that a template literal
    applies to a value; each throws a \<^verbatim>\<open>TypeError\<close> (\<open>Inl\<close>, with its message) or returns.
\<close>

record ('n, 'v) JsRuntime =
  trim :: "string \<Rightarrow> string"
  numberLiteral :: "int \<Rightarrow> 'n"
  numberAdd :: "'n \<Rightarrow> 'n \<Rightarrow> 'n"
  numberToString :: "'n \<Rightarrow> string"
  jsonParse :: "string \<Rightarrow> string + 'v"
  jsonStringify :: "'v \<Rightarrow> string"
  getMember :: "'v \<Rightarrow> string \<Rightarrow> string + 'v"
  callIncludes :: "'v \<Rightarrow> string \<Rightarrow> string + bool"
  templateString :: "'v \<Rightarrow> string + string"

text \<open>\<^verbatim>\<open>text.split("\n")\<close> and \<^verbatim>\<open>items.join(separator)\<close>.\<close>

fun splitNewline :: "string \<Rightarrow> string list" where
  "splitNewline [] = [[]]"
| "splitNewline (c # cs) =
     (if c = nl then [] # splitNewline cs
      else (case splitNewline cs of
              [] \<Rightarrow> [[c]]
            | l # ls \<Rightarrow> (c # l) # ls))"

fun joinWith :: "string \<Rightarrow> string list \<Rightarrow> string" where
  "joinWith separator [] = []"
| "joinWith separator [l] = l"
| "joinWith separator (l # m # ls) = l @ separator @ joinWith separator (m # ls)"

text \<open>
  \<^verbatim>\<open>output.trim().split("\n").filter((line) => line.trim())\<close>: the lines that are not
  empty after trimming, each kept as it was.
\<close>

definition nonEmptyLines :: "('n, 'v) JsRuntime \<Rightarrow> string \<Rightarrow> string list" where
  "nonEmptyLines rt output = filter (\<lambda>line. trim rt line \<noteq> []) (splitNewline (trim rt output))"

text \<open>\<^verbatim>\<open>items.map(f)\<close> with a callback that may throw: the first throw ends the map.\<close>

fun mapThrowing :: "('a \<Rightarrow> string + 'b) \<Rightarrow> 'a list \<Rightarrow> string + 'b list" where
  "mapThrowing f [] = Inr []"
| "mapThrowing f (x # xs) =
     (case f x of
        Inl message \<Rightarrow> Inl message
      | Inr y \<Rightarrow>
          (case mapThrowing f xs of
             Inl message \<Rightarrow> Inl message
           | Inr ys \<Rightarrow> Inr (y # ys)))"

text \<open>
  In each handler \<open>args\<close> is the argument object as \<^verbatim>\<open>applyFilters\<close> and
  \<^verbatim>\<open>applyFiltersToText\<close> (filters.ts) receive it; the fields the handler itself reads
  (\<^verbatim>\<open>args.vm\<close>, \<^verbatim>\<open>args.lines\<close>, \<^verbatim>\<open>args.filter\<close>, ...) are separate parameters. The two
  functions of filters.ts are parameters too: any function from a command, or a text,
  and the arguments to a string. The handler's result is \<open>Inr\<close> when its promise
  resolves and \<open>Inl\<close> when it is rejected.
\<close>

subsection \<open>registerVMTools\<close>

definition vm_list ::
  "(string \<Rightarrow> 'a \<Rightarrow> string) \<Rightarrow> 's SSHExecutor \<Rightarrow> 'a \<Rightarrow> 's \<Rightarrow> (js_error + ToolResult) \<times> 's" where
  "vm_list applyFilters exec args s =
     (let command = applyFilters ''virsh list --all'' args in
      case exec command s of
        (Inr output, s1) \<Rightarrow> (Inr (textResult (''Virtual Machines:'' @ [nl, nl] @ output)), s1)
      | (Inl e, s1) \<Rightarrow> (catchBlock ''Error listing VMs: '' e, s1))"

definition vm_info ::
  "(string \<Rightarrow> 'a \<Rightarrow> string) \<Rightarrow> 's SSHExecutor \<Rightarrow> string \<Rightarrow> 'a \<Rightarrow> 's
     \<Rightarrow> (js_error + ToolResult) \<times> 's" where
  "vm_info applyFilters exec vm args s =
     (let command = applyFilters (''virsh dominfo '' @ vm) args in
      case exec command s of
        (Inr output, s1) \<Rightarrow> (Inr (textResult (''VM Info - '' @ vm @ '':'' @ [nl, nl] @ output)), s1)
      | (Inl e, s1) \<Rightarrow> (catchBlock ''Error getting VM info: '' e, s1))"

definition vncXmlCommand :: "string \<Rightarrow> string" where
  "vncXmlCommand vm = ''virsh dumpxml '' @ vm @ '' | grep -A 5 '' @ [dq] @ ''<graphics'' @ [dq]"

text \<open>
  The inner \<^verbatim>\<open>try\<close> of \<open>vm vnc info\<close> has a \<^verbatim>\<open>catch\<close> without a binding: whatever the
  second lookup throws is dropped.
\<close>

definition vm_vnc_info ::
  "('n, 'v) JsRuntime \<Rightarrow> (string \<Rightarrow> 'a \<Rightarrow> string) \<Rightarrow> 's SSHExecutor \<Rightarrow> string \<Rightarrow> 'a \<Rightarrow> 's
     \<Rightarrow> (js_error + ToolResult) \<times> 's" where
  "vm_vnc_info rt applyFilters exec vm args s =
     (let command = applyFilters (''virsh vncdisplay '' @ vm) args in
      case exec command s of
        (Inl e, s1) \<Rightarrow> (catchBlock ''Error getting VNC info: '' e, s1)
      | (Inr output, s1) \<Rightarrow>
          (let result = trim rt output in
           if result = [] then
             (let xmlCommand = vncXmlCommand vm in
              case exec xmlCommand s1 of
                (Inr xmlOutput, s2) \<Rightarrow>
                  (Inr (textResult (''VNC Info - '' @ vm @ '':'' @ [nl, nl]
                     @ ''No VNC display active. Graphics configuration:'' @ [nl] @ xmlOutput)), s2)
              | (Inl e, s2) \<Rightarrow>
                  (Inr (textResult (''VNC Info - '' @ vm @ '':'' @ [nl, nl]
                     @ ''No VNC display configured or VM is not running.'')), s2))
           else (Inr (textResult (''VNC Info - '' @ vm @ '':'' @ [nl, nl] @ ''VNC Display: ''
                        @ result)), s1)))"

text \<open>
  \<^verbatim>\<open>args.lines ?? 100\<close>, and \<^verbatim>\<open>if (args.vm)\<close>: an absent or empty name is falsy. The two
  branches of the \<^verbatim>\<open>if\<close> stand inside the same \<^verbatim>\<open>try\<close> block.
\<close>

definition libvirtLogCommand :: "string \<Rightarrow> string \<Rightarrow> string" where
  "libvirtLogCommand vm lines = ''tail -n '' @ lines @ '' /var/log/libvirt/qemu/'' @ vm @ ''.log''"

definition libvirtListCommand :: string where
  "libvirtListCommand =
     ''ls -lh /var/log/libvirt/qemu/*.log 2>/dev/null || echo '' @ [sq] @ ''No log files found'' @ [sq]"

definition vm_libvirt_logs ::
  "('n, 'v) JsRuntime \<Rightarrow> (string \<Rightarrow> 'a \<Rightarrow> string) \<Rightarrow> 's SSHExecutor \<Rightarrow> string option \<Rightarrow> 'n option
     \<Rightarrow> 'a \<Rightarrow> 's \<Rightarrow> (js_error + ToolResult) \<times> 's" where
  "vm_libvirt_logs rt applyFilters exec vm_arg lines_arg args s =
     (let lines = (case lines_arg of Some n \<Rightarrow> n | None \<Rightarrow> numberLiteral rt 100);
          listLogFiles =
            (let listCommand = applyFilters libvirtListCommand args in
             case exec listCommand s of
               (Inr output, s1) \<Rightarrow>
                 (Inr (textResult (''Available Libvirt Log Files:'' @ [nl, nl] @ output @ [nl, nl]
                    @ ''To view logs for a specific VM, use the '' @ [sq] @ ''vm'' @ [sq]
                    @ '' parameter.'')), s1)
             | (Inl e, s1) \<Rightarrow> (catchBlock ''Error reading libvirt logs: '' e, s1)) in
      case vm_arg of
        None \<Rightarrow> listLogFiles
      | Some vm \<Rightarrow>
          if vm = [] then listLogFiles
          else
            (let command = applyFilters (libvirtLogCommand vm (numberToString rt lines)) args in
             case exec command s of
               (Inr output, s1) \<Rightarrow>
                 (Inr (textResult (''Libvirt Logs - '' @ vm @ '' (last '' @ numberToString rt lines
                    @ '' lines):'' @ [nl, nl] @ output)), s1)
             | (Inl e, s1) \<Rightarrow> (catchBlock ''Error reading libvirt logs: '' e, s1)))"

subsection \<open>registerDockerAdvancedTools\<close>

definition containerEnvCommand :: "string \<Rightarrow> string" where
  "containerEnvCommand container =
     ''docker inspect --format='' @ [sq] @ ''{{range .Config.Env}}{{println .}}{{end}}'' @ [sq]
     @ '' '' @ container"

definition docker_container_env ::
  "('n, 'v) JsRuntime \<Rightarrow> (string \<Rightarrow> 'a \<Rightarrow> string) \<Rightarrow> 's SSHExecutor \<Rightarrow> string \<Rightarrow> 'a \<Rightarrow> 's
     \<Rightarrow> (js_error + ToolResult) \<times> 's" where
  "docker_container_env rt applyFilters exec container args s =
     (let command = applyFilters (containerEnvCommand container) args in
      case exec command s of
        (Inl e, s1) \<Rightarrow> (catchBlock ''Error retrieving environment variables: '' e, s1)
      | (Inr output, s1) \<Rightarrow>
          (let result = (if trim rt output \<noteq> [] then trim rt output
                         else ''No environment variables found.'') in
           (Inr (textResult (''Environment Variables - '' @ container @ '':'' @ [nl, nl] @ result)),
            s1)))"

definition docker_top ::
  "(string \<Rightarrow> 'a \<Rightarrow> string) \<Rightarrow> 's SSHExecutor \<Rightarrow> string \<Rightarrow> 'a \<Rightarrow> 's
     \<Rightarrow> (js_error + ToolResult) \<times> 's" where
  "docker_top applyFilters exec container args s =
     (let command = applyFilters (''docker top '' @ container) args in
      case exec command s of
        (Inr output, s1) \<Rightarrow>
          (Inr (textResult (''Processes in Container - '' @ container @ '':'' @ [nl, nl] @ output)), s1)
      | (Inl e, s1) \<Rightarrow> (catchBlock ''Error retrieving container processes: '' e, s1))"

text \<open>
  The callback of \<open>docker health check all\<close>: \<^verbatim>\<open>c.Status.includes(...)\<close> in the chain of
  conditionals, then the template with \<^verbatim>\<open>c.Names\<close>, \<^verbatim>\<open>c.State\<close>, the health and
  \<^verbatim>\<open>c.Status\<close>, read and converted in this order.
\<close>

definition statusIncludes :: "('n, 'v) JsRuntime \<Rightarrow> 'v \<Rightarrow> string \<Rightarrow> string + bool" where
  "statusIncludes rt c needle =
     (case getMember rt c ''Status'' of
        Inl message \<Rightarrow> Inl message
      | Inr status \<Rightarrow> callIncludes rt status needle)"

definition healthOf :: "('n, 'v) JsRuntime \<Rightarrow> 'v \<Rightarrow> string + string" where
  "healthOf rt c =
     (case statusIncludes rt c ''(healthy)'' of
        Inl message \<Rightarrow> Inl message
      | Inr True \<Rightarrow> Inr ''healthy''
      | Inr False \<Rightarrow>
          (case statusIncludes rt c ''(unhealthy)'' of
             Inl message \<Rightarrow> Inl message
           | Inr True \<Rightarrow> Inr ''unhealthy''
           | Inr False \<Rightarrow>
               (case statusIncludes rt c ''(health: starting)'' of
                  Inl message \<Rightarrow> Inl message
                | Inr True \<Rightarrow> Inr ''starting''
                | Inr False \<Rightarrow> Inr ''no healthcheck'')))"

definition memberText :: "('n, 'v) JsRuntime \<Rightarrow> 'v \<Rightarrow> string \<Rightarrow> string + string" where
  "memberText rt c key =
     (case getMember rt c key of
        Inl message \<Rightarrow> Inl message
      | Inr member \<Rightarrow> templateString rt member)"

definition describeContainer :: "('n, 'v) JsRuntime \<Rightarrow> 'v \<Rightarrow> string + string" where
  "describeContainer rt c =
     (case healthOf rt c of
        Inl message \<Rightarrow> Inl message
      | Inr health \<Rightarrow>
          (case memberText rt c ''Names'' of
             Inl message \<Rightarrow> Inl message
           | Inr names \<Rightarrow>
               (case memberText rt c ''State'' of
                  Inl message \<Rightarrow> Inl message
                | Inr state \<Rightarrow>
                    (case memberText rt c ''Status'' of
                       Inl message \<Rightarrow> Inl message
                     | Inr status \<Rightarrow>
                         Inr (''Name: '' @ names @ [nl] @ ''State: '' @ state @ [nl]
                              @ ''Health: '' @ health @ [nl] @ ''Status: '' @ status @ [nl])))))"

text \<open>
  \<open>docker health check all\<close> passes its command to the executor as it is and filters the
  formatted text with \<^verbatim>\<open>applyFiltersToText\<close>. \<^verbatim>\<open>containers.length\<close> is an array length,
  rendered in decimal.
\<close>

definition docker_health_check_all ::
  "('n, 'v) JsRuntime \<Rightarrow> (string \<Rightarrow> 'a \<Rightarrow> string) \<Rightarrow> 's SSHExecutor \<Rightarrow> 'a \<Rightarrow> 's
     \<Rightarrow> (js_error + ToolResult) \<times> 's" where
  "docker_health_check_all rt applyFiltersToText exec args s =
     (let command = ''docker ps -a --format json'' in
      case exec command s of
        (Inl e, s1) \<Rightarrow> (catchBlock ''Error retrieving health status: '' e, s1)
      | (Inr output, s1) \<Rightarrow>
          (let lines = nonEmptyLines rt output in
           if length lines = 0 then (Inr (textResult ''No containers found.''), s1)
           else
             (case mapThrowing (jsonParse rt) lines of
                Inl message \<Rightarrow> (catchBlock ''Error retrieving health status: '' (Error message), s1)
              | Inr containers \<Rightarrow>
                  (case mapThrowing (describeContainer rt) containers of
                     Inl message \<Rightarrow>
                       (catchBlock ''Error retrieving health status: '' (Error message), s1)
                   | Inr described \<Rightarrow>
                       (let healthInfo = joinWith ([nl] @ ''---'' @ [nl, nl]) described;
                            filtered = applyFiltersToText
                              (''Container Health Status ('' @ showNat (length containers)
                               @ '' containers):'' @ [nl, nl] @ healthInfo) args in
                        (Inr (textResult filtered), s1))))))"

text \<open>
  The loop of \<open>docker logs aggregate\<close>: one lookup per container, in order; a lookup that
  throws is skipped (\<^verbatim>\<open>catch (error) { continue; }\<close>), one with output left after
  trimming adds an entry to \<^verbatim>\<open>results\<close>.
\<close>

definition containerLogCommand :: "string \<Rightarrow> string \<Rightarrow> string \<Rightarrow> string" where
  "containerLogCommand lines container pattern =
     ''docker logs --tail '' @ lines @ '' '' @ container @ '' 2>&1 | grep -i '' @ [sq] @ pattern
     @ [sq] @ '' || true''"

fun searchContainerLogs ::
  "('n, 'v) JsRuntime \<Rightarrow> 's SSHExecutor \<Rightarrow> string \<Rightarrow> string \<Rightarrow> string list \<Rightarrow> 's
     \<Rightarrow> string list \<times> 's" where
  "searchContainerLogs rt exec lines pattern [] s = ([], s)"
| "searchContainerLogs rt exec lines pattern (container # rest) s =
     (let logCommand = containerLogCommand lines container pattern in
      case exec logCommand s of
        (Inl e, s1) \<Rightarrow> searchContainerLogs rt exec lines pattern rest s1
      | (Inr logOutput, s1) \<Rightarrow>
          (case searchContainerLogs rt exec lines pattern rest s1 of
             (results, s2) \<Rightarrow>
               if trim rt logOutput \<noteq> []
               then ((''=== '' @ container @ '' ==='' @ [nl] @ trim rt logOutput @ [nl]) # results, s2)
               else (results, s2)))"

definition docker_logs_aggregate ::
  "('n, 'v) JsRuntime \<Rightarrow> (string \<Rightarrow> 'a \<Rightarrow> string) \<Rightarrow> 's SSHExecutor \<Rightarrow> string \<Rightarrow> 'n option
     \<Rightarrow> 'a \<Rightarrow> 's \<Rightarrow> (js_error + ToolResult) \<times> 's" where
  "docker_logs_aggregate rt applyFiltersToText exec pattern lines_arg args s =
     (let lines = (case lines_arg of Some n \<Rightarrow> n | None \<Rightarrow> numberLiteral rt 100);
          listCommand = ''docker ps --format '' @ [sq] @ ''{{.Names}}'' @ [sq] in
      case exec listCommand s of
        (Inl e, s1) \<Rightarrow> (catchBlock ''Error aggregating logs: '' e, s1)
      | (Inr containerList, s1) \<Rightarrow>
          (let containers = nonEmptyLines rt containerList in
           if length containers = 0 then (Inr (textResult ''No running containers found.''), s1)
           else
             (case searchContainerLogs rt exec (numberToString rt lines) pattern containers s1 of
                (results, s2) \<Rightarrow>
                  (let resultText =
                         (if length results = 0
                          then ''No matches found for pattern '' @ [dq] @ pattern @ [dq]
                               @ '' in any container logs (searched '' @ showNat (length containers)
                               @ '' containers).''
                          else ''Log Search Results for '' @ [dq] @ pattern @ [dq] @ '' (found in ''
                               @ showNat (length results) @ '' of '' @ showNat (length containers)
                               @ '' containers):'' @ [nl, nl] @ joinWith [nl] results);
                       filtered = applyFiltersToText resultText args in
                   (Inr (textResult filtered), s2)))))"

subsection \<open>registerDockerNetworkTools\<close>

definition docker_list_networks ::
  "(string \<Rightarrow> 'a \<Rightarrow> string) \<Rightarrow> 's SSHExecutor \<Rightarrow> string option \<Rightarrow> 'a \<Rightarrow> 's
     \<Rightarrow> (js_error + ToolResult) \<times> 's" where
  "docker_list_networks applyFilters exec filter_arg args s =
     (let command0 = ''docker network ls'';
          command1 = (case filter_arg of
                        Some f \<Rightarrow> if f \<noteq> [] then command0 @ '' --filter driver='' @ f else command0
                      | None \<Rightarrow> command0);
          command = applyFilters command1 args in
      case exec command s of
        (Inr output, s1) \<Rightarrow> (Inr (textResult (''Docker Networks:'' @ [nl, nl] @ output)), s1)
      | (Inl e, s1) \<Rightarrow> (catchBlock ''Error listing networks: '' e, s1))"

definition docker_inspect_network ::
  "('n, 'v) JsRuntime \<Rightarrow> (string \<Rightarrow> 'a \<Rightarrow> string) \<Rightarrow> 's SSHExecutor \<Rightarrow> string \<Rightarrow> 'a \<Rightarrow> 's
     \<Rightarrow> (js_error + ToolResult) \<times> 's" where
  "docker_inspect_network rt applyFilters exec network args s =
     (let command = applyFilters (''docker network inspect '' @ network) args in
      case exec command s of
        (Inl e, s1) \<Rightarrow> (catchBlock ''Error inspecting network: '' e, s1)
      | (Inr output, s1) \<Rightarrow>
          (case jsonParse rt output of
             Inl message \<Rightarrow> (catchBlock ''Error inspecting network: '' (Error message), s1)
           | Inr inspectData \<Rightarrow>
               (let formatted = jsonStringify rt inspectData in
                (Inr (textResult (''Docker Network Inspect - '' @ network @ '':'' @ [nl, nl]
                        @ formatted)), s1))))"

definition docker_list_volumes ::
  "(string \<Rightarrow> 'a \<Rightarrow> string) \<Rightarrow> 's SSHExecutor \<Rightarrow> bool option \<Rightarrow> 'a \<Rightarrow> 's
     \<Rightarrow> (js_error + ToolResult) \<times> 's" where
  "docker_list_volumes applyFilters exec dangling args s =
     (let command0 = ''docker volume ls'';
          command1 = (if dangling = Some True then command0 @ '' --filter dangling=true''
                      else if dangling = Some False then command0 @ '' --filter dangling=false''
                      else command0);
          command = applyFilters command1 args in
      case exec command s of
        (Inr output, s1) \<Rightarrow> (Inr (textResult (''Docker Volumes:'' @ [nl, nl] @ output)), s1)
      | (Inl e, s1) \<Rightarrow> (catchBlock ''Error listing volumes: '' e, s1))"

definition docker_inspect_volume ::
  "('n, 'v) JsRuntime \<Rightarrow> (string \<Rightarrow> 'a \<Rightarrow> string) \<Rightarrow> 's SSHExecutor \<Rightarrow> string \<Rightarrow> 'a \<Rightarrow> 's
     \<Rightarrow> (js_error + ToolResult) \<times> 's" where
  "docker_inspect_volume rt applyFilters exec volume args s =
     (let command = applyFilters (''docker volume inspect '' @ volume) args in
      case exec command s of
        (Inl e, s1) \<Rightarrow> (catchBlock ''Error inspecting volume: '' e, s1)
      | (Inr output, s1) \<Rightarrow>
          (case jsonParse rt output of
             Inl message \<Rightarrow> (catchBlock ''Error inspecting volume: '' (Error message), s1)
           | Inr inspectData \<Rightarrow>
               (let formatted = jsonStringify rt inspectData in
                (Inr (textResult (''Docker Volume Inspect - '' @ volume @ '':'' @ [nl, nl]
                        @ formatted)), s1))))"

definition networkContainersCommand :: "string \<Rightarrow> string" where
  "networkContainersCommand network =
     ''docker network inspect '' @ network @ '' --format '' @ [sq]
     @ ''{{range $id, $container := .Containers}}{{$id}}: {{$container.Name}} ({{$container.IPv4Address}}){{println}}{{end}}''
     @ [sq]"

definition docker_network_containers ::
  "('n, 'v) JsRuntime \<Rightarrow> (string \<Rightarrow> 'a \<Rightarrow> string) \<Rightarrow> 's SSHExecutor \<Rightarrow> string \<Rightarrow> 'a \<Rightarrow> 's
     \<Rightarrow> (js_error + ToolResult) \<times> 's" where
  "docker_network_containers rt applyFilters exec network args s =
     (let command = applyFilters (networkContainersCommand network) args in
      case exec command s of
        (Inl e, s1) \<Rightarrow> (catchBlock ''Error getting network containers: '' e, s1)
      | (Inr output, s1) \<Rightarrow>
          (let result = (if trim rt output \<noteq> [] then trim rt output
                         else ''No containers connected to this network.'') in
           (Inr (textResult (''Containers on network '' @ network @ '':'' @ [nl, nl] @ result)), s1)))"

subsection \<open>registerMonitoringTools\<close>

datatype SortBy = SortByCpu | SortByMemory

fun sortByName :: "SortBy \<Rightarrow> string" where
  "sortByName SortByCpu = ''cpu''"
| "sortByName SortByMemory = ''memory''"

definition psListCommand :: "SortBy option \<Rightarrow> string" where
  "psListCommand sortBy =
     (if sortBy = Some SortByCpu then ''ps aux'' @ '' --sort=-%cpu''
      else if sortBy = Some SortByMemory then ''ps aux'' @ '' --sort=-%mem''
      else ''ps aux'')"

definition monitoring_ps_list ::
  "(string \<Rightarrow> 'a \<Rightarrow> string) \<Rightarrow> 's SSHExecutor \<Rightarrow> SortBy option \<Rightarrow> 'a \<Rightarrow> 's
     \<Rightarrow> (js_error + ToolResult) \<times> 's" where
  "monitoring_ps_list applyFilters exec sortBy args s =
     (let command = applyFilters (psListCommand sortBy) args in
      case exec command s of
        (Inr output, s1) \<Rightarrow>
          (Inr (textResult (''Process List''
                  @ (case sortBy of Some by \<Rightarrow> '' (sorted by '' @ sortByName by @ '')'' | None \<Rightarrow> [])
                  @ '':'' @ [nl, nl] @ output)), s1)
      | (Inl e, s1) \<Rightarrow> (catchBlock ''Error listing processes: '' e, s1))"

definition processTreeCommand :: string where
  "processTreeCommand = ''command -v pstree >/dev/null 2>&1 && pstree -p || ps auxf''"

definition monitoring_process_tree ::
  "(string \<Rightarrow> 'a \<Rightarrow> string) \<Rightarrow> 's SSHExecutor \<Rightarrow> 'a \<Rightarrow> 's \<Rightarrow> (js_error + ToolResult) \<times> 's" where
  "monitoring_process_tree applyFilters exec args s =
     (let command = applyFilters processTreeCommand args in
      case exec command s of
        (Inr output, s1) \<Rightarrow> (Inr (textResult (''Process Tree:'' @ [nl, nl] @ output)), s1)
      | (Inl e, s1) \<Rightarrow> (catchBlock ''Error showing process tree: '' e, s1))"

text \<open>\<^verbatim>\<open>args.count ?? 20\<close> and \<^verbatim>\<open>count + 7\<close>.\<close>

definition topSnapshotCommand :: "('n, 'v) JsRuntime \<Rightarrow> 'n \<Rightarrow> string" where
  "topSnapshotCommand rt count =
     ''top -b -n 1 | head -n '' @ numberToString rt (numberAdd rt count (numberLiteral rt 7))"

definition monitoring_top_snapshot ::
  "('n, 'v) JsRuntime \<Rightarrow> (string \<Rightarrow> 'a \<Rightarrow> string) \<Rightarrow> 's SSHExecutor \<Rightarrow> 'n option \<Rightarrow> 'a \<Rightarrow> 's
     \<Rightarrow> (js_error + ToolResult) \<times> 's" where
  "monitoring_top_snapshot rt applyFilters exec count_arg args s =
     (let count = (case count_arg of Some n \<Rightarrow> n | None \<Rightarrow> numberLiteral rt 20);
          command = applyFilters (topSnapshotCommand rt count) args in
      case exec command s of
        (Inr output, s1) \<Rightarrow>
          (Inr (textResult (''Top Processes Snapshot ('' @ numberToString rt count @ '' processes):''
                  @ [nl, nl] @ output)), s1)
      | (Inl e, s1) \<Rightarrow> (catchBlock ''Error getting top snapshot: '' e, s1))"

definition iostatCommand :: string where
  "iostatCommand =
     ''command -v iostat >/dev/null 2>&1 && iostat -x 1 1 || echo '' @ [sq]
     @ ''iostat not available. Install sysstat package.'' @ [sq]"

definition monitoring_iostat_snapshot ::
  "(string \<Rightarrow> 'a \<Rightarrow> string) \<Rightarrow> 's SSHExecutor \<Rightarrow> 'a \<Rightarrow> 's \<Rightarrow> (js_error + ToolResult) \<times> 's" where
  "monitoring_iostat_snapshot applyFilters exec args s =
     (let command = applyFilters iostatCommand args in
      case exec command s of
        (Inr output, s1) \<Rightarrow> (Inr (textResult (''Disk I/O Statistics:'' @ [nl, nl] @ output)), s1)
      | (Inl e, s1) \<Rightarrow> (catchBlock ''Error getting I/O statistics: '' e, s1))"

text \<open>\<^verbatim>\<open>if (args.listening)\<close>: only \<^verbatim>\<open>true\<close> is truthy.\<close>

definition networkConnectionsCommand :: "bool option \<Rightarrow> string" where
  "networkConnectionsCommand listening =
     (let ssCommand = (if listening = Some True then ''ss -tulnp'' else ''ss -tunap'');
          netstatCommand = (if listening = Some True then ''netstat -tulnp'' else ''netstat -tunap'')
      in ''command -v ss >/dev/null 2>&1 && '' @ ssCommand @ '' || '' @ netstatCommand)"

definition monitoring_network_connections ::
  "(string \<Rightarrow> 'a \<Rightarrow> string) \<Rightarrow> 's SSHExecutor \<Rightarrow> bool option \<Rightarrow> 'a \<Rightarrow> 's
     \<Rightarrow> (js_error + ToolResult) \<times> 's" where
  "monitoring_network_connections applyFilters exec listening args s =
     (let command = applyFilters (networkConnectionsCommand listening) args in
      case exec command s of
        (Inr output, s1) \<Rightarrow>
          (let filterType = (if listening = Some True then '' (listening only)'' else []) in
           (Inr (textResult (''Network Connections'' @ filterType @ '':'' @ [nl, nl] @ output)), s1))
      | (Inl e, s1) \<Rightarrow> (catchBlock ''Error getting network connections: '' e, s1))"

subsection \<open>The registered tools\<close>

text \<open>
  One call of a registered tool: the tool and the fields of its arguments that the
  handler reads. \<open>callTool\<close> runs the handler registered under that name.
\<close>

datatype 'n ToolCall =
    VmList
  | VmInfo string
  | VmVncInfo string
  | VmLibvirtLogs "string option" "'n option"
  | DockerContainerEnv string
  | DockerTop string
  | DockerHealthCheckAll
  | DockerLogsAggregate string "'n option"
  | DockerListNetworks "string option"
  | DockerInspectNetwork string
  | DockerListVolumes "bool option"
  | DockerInspectVolume string
  | DockerNetworkContainers string
  | MonitoringPsList "SortBy option"
  | MonitoringProcessTree
  | MonitoringTopSnapshot "'n option"
  | MonitoringIostatSnapshot
  | MonitoringNetworkConnections "bool option"

fun callTool ::
  "('n, 'v) JsRuntime \<Rightarrow> (string \<Rightarrow> 'a \<Rightarrow> string) \<Rightarrow> (string \<Rightarrow> 'a \<Rightarrow> string) \<Rightarrow> 's SSHExecutor
     \<Rightarrow> 'n ToolCall \<Rightarrow> 'a \<Rightarrow> 's \<Rightarrow> (js_error + ToolResult) \<times> 's" where
  "callTool rt af aft exec VmList args s = vm_list af exec args s"
| "callTool rt af aft exec (VmInfo vm) args s = vm_info af exec vm args s"
| "callTool rt af aft exec (VmVncInfo vm) args s = vm_vnc_info rt af exec vm args s"
| "callTool rt af aft exec (VmLibvirtLogs vm n) args s = vm_libvirt_logs rt af exec vm n args s"
| "callTool rt af aft exec (DockerContainerEnv c) args s = docker_container_env rt af exec c args s"
| "callTool rt af aft exec (DockerTop c) args s = docker_top af exec c args s"
| "callTool rt af aft exec DockerHealthCheckAll args s = docker_health_check_all rt aft exec args s"
| "callTool rt af aft exec (DockerLogsAggregate p n) args s =
     docker_logs_aggregate rt aft exec p n args s"
| "callTool rt af aft exec (DockerListNetworks f) args s = docker_list_networks af exec f args s"
| "callTool rt af aft exec (DockerInspectNetwork n) args s =
     docker_inspect_network rt af exec n args s"
| "callTool rt af aft exec (DockerListVolumes d) args s = docker_list_volumes af exec d args s"
| "callTool rt af aft exec (DockerInspectVolume v) args s =
     docker_inspect_volume rt af exec v args s"
| "callTool rt af aft exec (DockerNetworkContainers n) args s =
     docker_network_containers rt af exec n args s"
| "callTool rt af aft exec (MonitoringPsList b) args s = monitoring_ps_list af exec b args s"
| "callTool rt af aft exec MonitoringProcessTree args s = monitoring_process_tree af exec args s"
| "callTool rt af aft exec (MonitoringTopSnapshot n) args s =
     monitoring_top_snapshot rt af exec n args s"
| "callTool rt af aft exec MonitoringIostatSnapshot args s =
     monitoring_iostat_snapshot af exec args s"
| "callTool rt af aft exec (MonitoringNetworkConnections l) args s =
     monitoring_network_connections af exec l args s"

text \<open>
  The command of the handler's first \<^verbatim>\<open>await sshExecutor(...)\<close>, as the executor
  receives it.
\<close>

fun firstCommand ::
  "('n, 'v) JsRuntime \<Rightarrow> (string \<Rightarrow> 'a \<Rightarrow> string) \<Rightarrow> 'n ToolCall \<Rightarrow> 'a \<Rightarrow> string" where
  "firstCommand rt af VmList args = af ''virsh list --all'' args"
| "firstCommand rt af (VmInfo vm) args = af (''virsh dominfo '' @ vm) args"
| "firstCommand rt af (VmVncInfo vm) args = af (''virsh vncdisplay '' @ vm) args"
| "firstCommand rt af (VmLibvirtLogs vm_arg n) args =
     (case vm_arg of
        None \<Rightarrow> af libvirtListCommand args
      | Some vm \<Rightarrow>
          if vm = [] then af libvirtListCommand args
          else af (libvirtLogCommand vm
                     (numberToString rt (case n of Some k \<Rightarrow> k | None \<Rightarrow> numberLiteral rt 100))) args)"
| "firstCommand rt af (DockerContainerEnv c) args = af (containerEnvCommand c) args"
| "firstCommand rt af (DockerTop c) args = af (''docker top '' @ c) args"
| "firstCommand rt af DockerHealthCheckAll args = ''docker ps -a --format json''"
| "firstCommand rt af (DockerLogsAggregate p n) args =
     ''docker ps --format '' @ [sq] @ ''{{.Names}}'' @ [sq]"
| "firstCommand rt af (DockerListNetworks f) args =
     (case f of
        Some d \<Rightarrow> if d \<noteq> [] then af (''docker network ls'' @ '' --filter driver='' @ d) args
                  else af ''docker network ls'' args
      | None \<Rightarrow> af ''docker network ls'' args)"
| "firstCommand rt af (DockerInspectNetwork n) args = af (''docker network inspect '' @ n) args"
| "firstCommand rt af (DockerListVolumes d) args =
     (if d = Some True then af (''docker volume ls'' @ '' --filter dangling=true'') args
      else if d = Some False then af (''docker volume ls'' @ '' --filter dangling=false'') args
      else af ''docker volume ls'' args)"
| "firstCommand rt af (DockerInspectVolume v) args = af (''docker volume inspect '' @ v) args"
| "firstCommand rt af (DockerNetworkContainers n) args = af (networkContainersCommand n) args"
| "firstCommand rt af (MonitoringPsList b) args = af (psListCommand b) args"
| "firstCommand rt af MonitoringProcessTree args = af processTreeCommand args"
| "firstCommand rt af (MonitoringTopSnapshot n) args =
     af (topSnapshotCommand rt (case n of Some k \<Rightarrow> k | None \<Rightarrow> numberLiteral rt 20)) args"
| "firstCommand rt af MonitoringIostatSnapshot args = af iostatCommand args"
| "firstCommand rt af (MonitoringNetworkConnections l) args = af (networkConnectionsCommand l) args"

text \<open>The prefix of the message in the handler's outer \<^verbatim>\<open>catch\<close> block.\<close>

fun errorPrefix :: "'n ToolCall \<Rightarrow> string" where
  "errorPrefix VmList = ''Error listing VMs: ''"
| "errorPrefix (VmInfo vm) = ''Error getting VM info: ''"
| "errorPrefix (VmVncInfo vm) = ''Error getting VNC info: ''"
| "errorPrefix (VmLibvirtLogs vm n) = ''Error reading libvirt logs: ''"
| "errorPrefix (DockerContainerEnv c) = ''Error retrieving environment variables: ''"
| "errorPrefix (DockerTop c) = ''Error retrieving container processes: ''"
| "errorPrefix DockerHealthCheckAll = ''Error retrieving health status: ''"
| "errorPrefix (DockerLogsAggregate p n) = ''Error aggregating logs: ''"
| "errorPrefix (DockerListNetworks f) = ''Error listing networks: ''"
| "errorPrefix (DockerInspectNetwork n) = ''Error inspecting network: ''"
| "errorPrefix (DockerListVolumes d) = ''Error listing volumes: ''"
| "errorPrefix (DockerInspectVolume v) = ''Error inspecting volume: ''"
| "errorPrefix (DockerNetworkContainers n) = ''Error getting network containers: ''"
| "errorPrefix (MonitoringPsList b) = ''Error listing processes: ''"
| "errorPrefix MonitoringProcessTree = ''Error showing process tree: ''"
| "errorPrefix (MonitoringTopSnapshot n) = ''Error getting top snapshot: ''"
| "errorPrefix MonitoringIostatSnapshot = ''Error getting I/O statistics: ''"
| "errorPrefix (MonitoringNetworkConnections l) = ''Error getting network connections: ''"



subsection \<open>A runtime and executors to run the handlers on\<close>










section \<open>FilterPipeline: the local transform\<close>

text \<open>
  Modelled from the spec: filters.ts (\<^verbatim>\<open>applyFilters\<close>, \<^verbatim>\<open>applyFiltersToText\<close>) is not among
  the sources, only its callers are. \<open>FilterSpec\<close> and \<open>applyToText\<close> follow sections 3
  and 4.3 of the specification: the text is cut into lines at each line feed, the stages
  run in the fixed order match, sort, deduplicate, bound, count, and the lines are joined
  again unless a count is asked for. The pattern matcher (substring or regular
  expression, which the specification leaves open) is a parameter: it is given the
  case-insensitivity flag, the pattern and a line.
\<close>

datatype CountMode = CountLines | CountWords | CountChars

record FilterSpec =
  grepPattern :: "string option"
  caseInsensitive :: bool
  headCount :: "nat option"
  tailCount :: "nat option"
  sortEnabled :: bool
  uniqueEnabled :: bool
  countMode :: "CountMode option"

fun splitLines :: "string \<Rightarrow> string list" where
  "splitLines [] = [[]]"
| "splitLines (c # cs) =
     (if c = nl then [] # splitLines cs
      else (case splitLines cs of
              [] \<Rightarrow> [[c]]
            | l # ls \<Rightarrow> (c # l) # ls))"

fun joinLines :: "string list \<Rightarrow> string" where
  "joinLines [] = []"
| "joinLines [l] = l"
| "joinLines (l # m # ls) = l @ nl # joinLines (m # ls)"

text \<open>Deduplication: a line is dropped when it equals the line just before it.\<close>

fun collapseAdjacent :: "string list \<Rightarrow> string list" where
  "collapseAdjacent [] = []"
| "collapseAdjacent [l] = [l]"
| "collapseAdjacent (l # m # ls) =
     (if l = m then collapseAdjacent (m # ls) else l # collapseAdjacent (m # ls))"

text \<open>ASCII white space: tab, LF, VT, FF, CR, space.\<close>

definition isSpace :: "char \<Rightarrow> bool" where
  "isSpace c = (c \<in> set [CHR 0x09, CHR 0x0A, CHR 0x0B, CHR 0x0C, CHR 0x0D, CHR 0x20])"

text \<open>Words are the maximal runs of characters that are not white space.\<close>

fun countWords :: "bool \<Rightarrow> string \<Rightarrow> nat" where
  "countWords inWord [] = 0"
| "countWords inWord (c # cs) =
     (if isSpace c then countWords False cs
      else if inWord then countWords True cs
      else Suc (countWords True cs))"

fun countOf :: "CountMode \<Rightarrow> string list \<Rightarrow> nat" where
  "countOf CountLines ls = length ls"
| "countOf CountWords ls = countWords False (joinLines ls)"
| "countOf CountChars ls = length (joinLines ls)"

text \<open>
  Modelled from the spec: \<^verbatim>\<open>applyFiltersToText\<close> of filters.ts, which is not among the
  sources. Section 4.3: match, then stable ascending sort, then collapsing of adjacent
  duplicates, then the leading-N and trailing-N bounds, then the count, which replaces
  the filtered text.
\<close>

definition applyToText :: "(bool \<Rightarrow> string \<Rightarrow> string \<Rightarrow> bool) \<Rightarrow> FilterSpec \<Rightarrow> string \<Rightarrow> string" where
  "applyToText matchesLine spec txt =
     (let lines0 = splitLines txt;
          lines1 = (case grepPattern spec of
                      None \<Rightarrow> lines0
                    | Some pattern \<Rightarrow> filter (matchesLine (caseInsensitive spec) pattern) lines0);
          lines2 = (if sortEnabled spec then sort lines1 else lines1);
          lines3 = (if uniqueEnabled spec then collapseAdjacent lines2 else lines2);
          lines4 = (case headCount spec of None \<Rightarrow> lines3 | Some n \<Rightarrow> take n lines3);
          lines5 = (case tailCount spec of
                      None \<Rightarrow> lines4
                    | Some n \<Rightarrow> drop (length lines4 - n) lines4)
      in case countMode spec of
           None \<Rightarrow> joinLines lines5
         | Some mode \<Rightarrow> showNat (countOf mode lines5))"

text \<open>The spec with no field set, and the two specs of scenario (3).\<close>

definition noFilters :: FilterSpec where
  "noFilters = \<lparr>grepPattern = None, caseInsensitive = False, headCount = None, tailCount = None,
                sortEnabled = False, uniqueEnabled = False, countMode = None\<rparr>"

definition uniqueOnly :: FilterSpec where
  "uniqueOnly = noFilters\<lparr>uniqueEnabled := True\<rparr>"

definition sortUnique :: FilterSpec where
  "sortUnique = noFilters\<lparr>sortEnabled := True, uniqueEnabled := True\<rparr>"

section \<open>ConnectionManager: the circuit breaker\<close>

text \<open>
  Modelled from the spec: ssh-manager.ts is not among the sources. The manager's breaker
  follows section 4.1 of the specification. Time is the clock reading in milliseconds at
  the call. The network is a script of what the transport will answer to the next
  attempts, with a count of the attempts made; one attempt stands for the run of a
  command on the session, its reconnect and retry included. A result with a non-zero
  exit code is a transport-level success.
\<close>

datatype BreakerState = Closed | Open | HalfOpen

datatype TransportFailure = ConnectionLost | ReconnectFailed | TimedOut

datatype ExecuteError = CircuitOpenError | ConnectionError | TimeoutError

fun toExecuteError :: "TransportFailure \<Rightarrow> ExecuteError" where
  "toExecuteError ConnectionLost = ConnectionError"
| "toExecuteError ReconnectFailed = ConnectionError"
| "toExecuteError TimedOut = TimeoutError"

record Network =
  script :: "(TransportFailure + CommandResult) list"
  attempts :: nat

record ConnectionManager =
  breakerState :: BreakerState
  failureCount :: nat
  threshold :: nat
  cooldownMs :: nat
  cooldownDeadline :: nat

text \<open>One network attempt; an exhausted script answers with a lost connection.\<close>

definition transportRun :: "string \<Rightarrow> nat \<Rightarrow> Network \<Rightarrow> (TransportFailure + CommandResult) \<times> Network" where
  "transportRun command timeoutMs net =
     (case script net of
        [] \<Rightarrow> (Inl ConnectionLost, net\<lparr>attempts := Suc (attempts net)\<rparr>)
      | outcome # later \<Rightarrow> (outcome, \<lparr>script = later, attempts = Suc (attempts net)\<rparr>))"

definition recordSuccess :: "ConnectionManager \<Rightarrow> ConnectionManager" where
  "recordSuccess cm = cm\<lparr>breakerState := Closed, failureCount := 0\<rparr>"

definition recordFailure :: "nat \<Rightarrow> ConnectionManager \<Rightarrow> ConnectionManager" where
  "recordFailure now cm =
     (let n = Suc (failureCount cm) in
      if breakerState cm = HalfOpen \<or> n \<ge> threshold cm
      then cm\<lparr>breakerState := Open, failureCount := n, cooldownDeadline := now + cooldownMs cm\<rparr>
      else cm\<lparr>failureCount := n\<rparr>)"

text \<open>
  Modelled from the spec: \<^verbatim>\<open>execute\<close> of the connection manager (ssh-manager.ts, not
  among the sources). Section 4.1: an open breaker whose cool-down has not elapsed fails
  the call at once with \<open>CircuitOpenError\<close> and leaves the network alone; after the
  cool-down the call goes through as a half-open probe; a success closes the breaker and
  resets the counter, a failure counts, and opens the breaker at the threshold or on a
  failed probe.
\<close>

definition execute ::
  "nat \<Rightarrow> string \<Rightarrow> nat \<Rightarrow> ConnectionManager \<times> Network
     \<Rightarrow> (ExecuteError + CommandResult) \<times> ConnectionManager \<times> Network" where
  "execute now command timeoutMs st =
     (case st of (cm, net) \<Rightarrow>
        if breakerState cm = Open \<and> now < cooldownDeadline cm
        then (Inl CircuitOpenError, cm, net)
        else
          (let probing = (if breakerState cm = Open then cm\<lparr>breakerState := HalfOpen\<rparr> else cm) in
           case transportRun command timeoutMs net of
             (Inr result, net') \<Rightarrow> (Inr result, recordSuccess probing, net')
           | (Inl failure, net') \<Rightarrow> (Inl (toExecuteError failure), recordFailure now probing, net')))"

text \<open>A sequence of calls, each with its clock reading, command and timeout.\<close>

fun executeAll ::
  "(nat \<times> string \<times> nat) list \<Rightarrow> ConnectionManager \<times> Network \<Rightarrow> ConnectionManager \<times> Network" where
  "executeAll [] st = st"
| "executeAll ((now, command, timeoutMs) # calls) st =
     executeAll calls (snd (execute now command timeoutMs st))"

text \<open>Scenario (4): the default threshold 3, and a network that fails three times.\<close>

definition freshManager :: ConnectionManager where
  "freshManager = \<lparr>breakerState = Closed, failureCount = 0, threshold = 3, cooldownMs = 30000,
                   cooldownDeadline = 0\<rparr>"

definition threeFailures :: Network where
  "threeFailures = \<lparr>script = [Inl ConnectionLost, Inl TimedOut, Inl ConnectionLost,
                                Inr \<lparr>stdout = ''up'', stderr = [], exitCode = 0\<rparr>],
                     attempts = 0\<rparr>"

definition threeCalls :: "(nat \<times> string \<times> nat) list" where
  "threeCalls = [(1000, ''uptime'', 15000), (2000, ''uptime'', 15000), (3000, ''uptime'', 15000)]"

text \<open>The manager and the network after those three calls.\<close>

definition openedManager :: ConnectionManager where
  "openedManager = \<lparr>breakerState = Open, failureCount = 3, threshold = 3, cooldownMs = 30000,
                    cooldownDeadline = 33000\<rparr>"

definition afterThreeFailures :: Network where
  "afterThreeFailures = \<lparr>script = [Inr \<lparr>stdout = ''up'', stderr = [], exitCode = 0\<rparr>],
                          attempts = 3\<rparr>"

section \<open>Properties of the logger\<close>

lemma format_level_names:
  "format ''debug'' m = ''[DEBUG] '' @ m"
  "format ''info'' m = ''[INFO] '' @ m"
  "format ''warn'' m = ''[WARN] '' @ m"
  "format ''error'' m = ''[ERROR] '' @ m"
  by (simp_all add: format_def toUpperCase_def toUpperCaseChar_def)

lemma debug_eq:
  "debug lg m con =
     (if LOG_LEVELS LDebug \<ge> LOG_LEVELS (currentLevel lg)
      then con\<lparr>errorCalls := errorCalls con @ [''[DEBUG] '' @ m]\<rparr> else con)"
  by (simp add: debug_def shouldLog_def console_error_def format_level_names)

lemma info_eq:
  "info lg m con =
     (if LOG_LEVELS LInfo \<ge> LOG_LEVELS (currentLevel lg)
      then con\<lparr>errorCalls := errorCalls con @ [''[INFO] '' @ m]\<rparr> else con)"
  by (simp add: info_def shouldLog_def console_error_def format_level_names)

lemma warn_eq:
  "warn lg m con =
     (if LOG_LEVELS LWarn \<ge> LOG_LEVELS (currentLevel lg)
      then con\<lparr>errorCalls := errorCalls con @ [''[WARN] '' @ m]\<rparr> else con)"
  by (simp add: warn_def shouldLog_def console_error_def format_level_names)

lemma error_eq:
  "error lg m con =
     (if LOG_LEVELS LError \<ge> LOG_LEVELS (currentLevel lg)
      then con\<lparr>errorCalls := errorCalls con @ [''[ERROR] '' @ m]\<rparr> else con)"
  by (simp add: error_def shouldLog_def console_error_def format_level_names)

text \<open>
  C9. Each of the four methods appends exactly \<open>[LEVEL] message\<close> to the
  \<^verbatim>\<open>console.error\<close> channel if the rank of its level is at least the rank of the
  configured level, and otherwise leaves the console as it was; with the level
  \<open>silent\<close> no method writes, and \<^verbatim>\<open>console.log\<close> is never written to.
\<close>

theorem logger_writes_iff_rank:
  "debug lg m con =
     (if LOG_LEVELS LDebug \<ge> LOG_LEVELS (currentLevel lg)
      then con\<lparr>errorCalls := errorCalls con @ [''[DEBUG] '' @ m]\<rparr> else con)
   \<and> info lg m con =
     (if LOG_LEVELS LInfo \<ge> LOG_LEVELS (currentLevel lg)
      then con\<lparr>errorCalls := errorCalls con @ [''[INFO] '' @ m]\<rparr> else con)
   \<and> warn lg m con =
     (if LOG_LEVELS LWarn \<ge> LOG_LEVELS (currentLevel lg)
      then con\<lparr>errorCalls := errorCalls con @ [''[WARN] '' @ m]\<rparr> else con)
   \<and> error lg m con =
     (if LOG_LEVELS LError \<ge> LOG_LEVELS (currentLevel lg)
      then con\<lparr>errorCalls := errorCalls con @ [''[ERROR] '' @ m]\<rparr> else con)
   \<and> (currentLevel lg = LSilent \<longrightarrow>
        debug lg m con = con \<and> info lg m con = con \<and> warn lg m con = con \<and> error lg m con = con)
   \<and> logCalls (debug lg m con) = logCalls con \<and> logCalls (info lg m con) = logCalls con
   \<and> logCalls (warn lg m con) = logCalls con \<and> logCalls (error lg m con) = logCalls con"
  by (simp add: debug_eq info_eq warn_eq error_eq)

theorem logger_writes_iff_rank_witness:
  "currentLevel \<lparr>currentLevel = LSilent\<rparr> = LSilent
   \<and> error \<lparr>currentLevel = LSilent\<rparr> ''x'' \<lparr>errorCalls = [], logCalls = []\<rparr>
       = \<lparr>errorCalls = [], logCalls = []\<rparr>
   \<and> warn \<lparr>currentLevel = LWarn\<rparr> ''disk full'' \<lparr>errorCalls = [], logCalls = []\<rparr>
       = \<lparr>errorCalls = [''[WARN] disk full''], logCalls = []\<rparr>
   \<and> info \<lparr>currentLevel = LWarn\<rparr> ''ready'' \<lparr>errorCalls = [], logCalls = []\<rparr>
       = \<lparr>errorCalls = [], logCalls = []\<rparr>"
  using logger_writes_iff_rank [of "\<lparr>currentLevel = LSilent\<rparr>" "''x''" "\<lparr>errorCalls = [], logCalls = []\<rparr>"]
    logger_writes_iff_rank [of "\<lparr>currentLevel = LWarn\<rparr>" "''disk full''" "\<lparr>errorCalls = [], logCalls = []\<rparr>"]
    logger_writes_iff_rank [of "\<lparr>currentLevel = LWarn\<rparr>" "''ready''" "\<lparr>errorCalls = [], logCalls = []\<rparr>"]
  by simp

section \<open>Properties of the SSH executor adapter\<close>

text \<open>
  C10. Given the command's result, the adapter raises if and only if the exit code is
  non-zero and stderr is non-empty; in every other case (a non-zero exit code with an
  empty stderr included) it resolves to stdout alone, so stderr is discarded.
\<close>

theorem adapter_raises_iff_nonzero_exit_and_stderr:
  assumes "executeCommand command s = (Inr result, s')"
  shows "((\<exists>e. fst (sshExecutor executeCommand command s) = Inl e)
            \<longleftrightarrow> (exitCode result \<noteq> 0 \<and> stderr result \<noteq> []))
         \<and> (\<not> (exitCode result \<noteq> 0 \<and> stderr result \<noteq> [])
              \<longrightarrow> sshExecutor executeCommand command s = (Inr (stdout result), s'))"
  using assms by (simp add: sshExecutor_def)

theorem adapter_raises_iff_nonzero_exit_and_stderr_witness:
  "exitOneSilently ''ls'' () = (Inr \<lparr>stdout = ''partial'', stderr = [], exitCode = 1\<rparr>, ())
   \<and> sshExecutor exitOneSilently ''ls'' () = (Inr ''partial'', ())"
  using adapter_raises_iff_nonzero_exit_and_stderr
          [of exitOneSilently "''ls''" "()" "\<lparr>stdout = ''partial'', stderr = [], exitCode = 1\<rparr>" "()"]
  by (simp add: exitOneSilently_def)

section \<open>Properties of the tool handlers\<close>









text \<open>When the first executor call throws, the handler's outcome is its outer \<^verbatim>\<open>catch\<close> block's.\<close>

lemma callTool_first_throw:
  assumes "exec (firstCommand rt af call args) s = (Inl e, s1)"
  shows "callTool rt af aft exec call args s = (catchBlock (errorPrefix call) e, s1)"
proof (cases call)
  case VmList
  with assms show ?thesis
    by (simp add: vm_list_def Let_def del: showNat.simps)
next
  case (VmInfo x1)
  with assms show ?thesis
    by (simp add: vm_info_def Let_def del: showNat.simps)
next
  case (VmVncInfo x1)
  with assms show ?thesis
    by (simp add: vm_vnc_info_def Let_def del: showNat.simps)
next
  case (VmLibvirtLogs x1 x2)
  with assms show ?thesis
    by (auto simp add: vm_libvirt_logs_def Let_def del: showNat.simps split: option.splits if_splits)
next
  case (DockerContainerEnv x1)
  with assms show ?thesis
    by (simp add: docker_container_env_def Let_def del: showNat.simps)
next
  case (DockerTop x1)
  with assms show ?thesis
    by (simp add: docker_top_def Let_def del: showNat.simps)
next
  case DockerHealthCheckAll
  with assms show ?thesis
    by (simp add: docker_health_check_all_def Let_def del: showNat.simps)
next
  case (DockerLogsAggregate x1 x2)
  with assms show ?thesis
    by (simp add: docker_logs_aggregate_def Let_def del: showNat.simps)
next
  case (DockerListNetworks x1)
  with assms show ?thesis
    by (auto simp add: docker_list_networks_def Let_def del: showNat.simps split: option.splits if_splits)
next
  case (DockerInspectNetwork x1)
  with assms show ?thesis
    by (simp add: docker_inspect_network_def Let_def del: showNat.simps)
next
  case (DockerListVolumes x1)
  with assms show ?thesis
    by (auto simp add: docker_list_volumes_def Let_def del: showNat.simps split: if_splits)
next
  case (DockerInspectVolume x1)
  with assms show ?thesis
    by (simp add: docker_inspect_volume_def Let_def del: showNat.simps)
next
  case (DockerNetworkContainers x1)
  with assms show ?thesis
    by (simp add: docker_network_containers_def Let_def del: showNat.simps)
next
  case (MonitoringPsList x1)
  with assms show ?thesis
    by (simp add: monitoring_ps_list_def Let_def del: showNat.simps)
next
  case MonitoringProcessTree
  with assms show ?thesis
    by (simp add: monitoring_process_tree_def Let_def del: showNat.simps)
next
  case (MonitoringTopSnapshot x1)
  with assms show ?thesis
    by (simp add: monitoring_top_snapshot_def Let_def del: showNat.simps)
next
  case MonitoringIostatSnapshot
  with assms show ?thesis
    by (simp add: monitoring_iostat_snapshot_def Let_def del: showNat.simps)
next
  case (MonitoringNetworkConnections x1)
  with assms show ?thesis
    by (simp add: monitoring_network_connections_def Let_def del: showNat.simps)
qed

text \<open>
  The path on which a handler is rejected: its first executor call throws a value for
  which the conversion in the \<^verbatim>\<open>catch\<close> block throws in turn.
\<close>

lemma callTool_rejected_when_conversion_throws:
  assumes "exec (firstCommand rt af call args) s = (Inl (Unprintable thrown), s1)"
  shows "callTool rt af aft exec call args s = (Inl thrown, s1)"
  using callTool_first_throw [where exec = exec and rt = rt and af = af and call = call
          and args = args and s = s and e = "Unprintable thrown" and ?s1.0 = s1 and aft = aft,
          OF assms]
  by (simp add: catchBlock_def)






section \<open>Properties of the local filter transform\<close>

lemma collapseAdjacent_remdups_adj: "collapseAdjacent ls = remdups_adj ls"
  by (induction ls rule: collapseAdjacent.induct) auto

lemma splitLines_scenario:
  "splitLines (''a'' @ [nl] @ ''a'' @ [nl] @ ''b'' @ [nl] @ ''a'') = [''a'', ''a'', ''b'', ''a'']"
  by (simp add: nl_def)

lemma sort_scenario: "sort [''a'', ''a'', ''b'', ''a''] = [''a'', ''a'', ''a'', ''b'']"
  by code_simp

text \<open>
  C6. With only \<open>unique\<close> set, the local transform collapses runs of adjacent
  identical lines and nothing else (the result is the joined \<open>remdups_adj\<close> of the
  lines): the text a, a, b, a becomes a, b, a. With \<open>sort\<close> and \<open>unique\<close> set the same
  text becomes a, b.
\<close>

theorem unique_collapses_adjacent_runs_only:
  "applyToText matchesLine uniqueOnly txt = joinLines (remdups_adj (splitLines txt))
   \<and> applyToText matchesLine uniqueOnly (''a'' @ [nl] @ ''a'' @ [nl] @ ''b'' @ [nl] @ ''a'')
       = ''a'' @ [nl] @ ''b'' @ [nl] @ ''a''
   \<and> applyToText matchesLine sortUnique (''a'' @ [nl] @ ''a'' @ [nl] @ ''b'' @ [nl] @ ''a'')
       = ''a'' @ [nl] @ ''b''"
  by (simp add: applyToText_def uniqueOnly_def sortUnique_def noFilters_def
      collapseAdjacent_remdups_adj splitLines_scenario sort_scenario nl_def)

section \<open>Properties of the circuit breaker\<close>

lemma executeAll_append:
  "executeAll (xs @ ys) st = executeAll ys (executeAll xs st)"
proof (induction xs arbitrary: st)
  case Nil
  then show ?case by simp
next
  case (Cons x xs)
  obtain now command timeoutMs where "x = (now, command, timeoutMs)"
    by (cases x) auto
  with Cons.IH [of "snd (execute now command timeoutMs st)"] show ?case by simp
qed

lemma execute_failure_below_threshold:
  assumes "breakerState cm = Closed" and "Suc (failureCount cm) < threshold cm"
    and "script net = Inl f # later"
  shows "execute now command timeoutMs (cm, net)
           = (Inl (toExecuteError f), cm\<lparr>failureCount := Suc (failureCount cm)\<rparr>,
              \<lparr>script = later, attempts = Suc (attempts net)\<rparr>)"
  using assms by (simp add: execute_def transportRun_def recordFailure_def)

lemma execute_failure_reaching_threshold:
  assumes "breakerState cm = Closed" and "Suc (failureCount cm) = threshold cm"
    and "script net = Inl f # later"
  shows "execute now command timeoutMs (cm, net)
           = (Inl (toExecuteError f),
              cm\<lparr>breakerState := Open, failureCount := threshold cm,
                 cooldownDeadline := now + cooldownMs cm\<rparr>,
              \<lparr>script = later, attempts = Suc (attempts net)\<rparr>)"
  using assms by (simp add: execute_def transportRun_def recordFailure_def)

lemma executeAll_failures_below_threshold:
  assumes "breakerState cm = Closed" and "failureCount cm + length calls < threshold cm"
    and "script net = map Inl failures @ later" and "length failures = length calls"
  shows "executeAll calls (cm, net)
           = (cm\<lparr>failureCount := failureCount cm + length calls\<rparr>,
              \<lparr>script = later, attempts = attempts net + length calls\<rparr>)"
  using assms
proof (induction calls arbitrary: cm net failures)
  case Nil
  then show ?case by simp
next
  case (Cons call calls)
  obtain now command timeoutMs where call: "call = (now, command, timeoutMs)"
    by (cases call) auto
  from Cons.prems obtain f fs where fs: "failures = f # fs" "length fs = length calls"
    by (cases failures) auto
  let ?cm1 = "cm\<lparr>failureCount := Suc (failureCount cm)\<rparr>"
  let ?net1 = "\<lparr>script = map Inl fs @ later, attempts = Suc (attempts net)\<rparr>"
  have step: "execute now command timeoutMs (cm, net) = (Inl (toExecuteError f), ?cm1, ?net1)"
    using Cons.prems fs by (intro execute_failure_below_threshold) auto
  have "executeAll calls (?cm1, ?net1)
          = (?cm1\<lparr>failureCount := failureCount ?cm1 + length calls\<rparr>,
             \<lparr>script = later, attempts = attempts ?net1 + length calls\<rparr>)"
    using Cons.prems fs by (intro Cons.IH [of ?cm1 ?net1 fs]) auto
  with step call show ?case by simp
qed

lemma executeAll_threshold_failures:
  assumes closed: "breakerState cm = Closed" and zero: "failureCount cm = 0"
    and thr: "0 < threshold cm"
    and calls: "length calls = threshold cm"
    and fails: "script net = map Inl failures @ later" and len: "length failures = threshold cm"
  shows "executeAll calls (cm, net)
           = (cm\<lparr>breakerState := Open, failureCount := threshold cm,
                 cooldownDeadline := fst (last calls) + cooldownMs cm\<rparr>,
              \<lparr>script = later, attempts = attempts net + threshold cm\<rparr>)"
proof -
  from thr calls have ne: "calls \<noteq> []" by auto
  from thr len have fne: "failures \<noteq> []" by auto
  obtain now command timeoutMs where lastc: "last calls = (now, command, timeoutMs)"
    by (cases "last calls") auto
  have cs: "calls = butlast calls @ [(now, command, timeoutMs)]"
    using ne lastc by (metis append_butlast_last_id)
  have fs: "failures = butlast failures @ [last failures]"
    using fne by simp
  let ?k = "length (butlast calls)"
  have k: "Suc ?k = threshold cm" using calls thr by simp
  have sc: "script net = map Inl (butlast failures) @ (Inl (last failures) # later)"
    by (subst fails, subst fs) simp
  let ?cm1 = "cm\<lparr>failureCount := failureCount cm + ?k\<rparr>"
  let ?net1 = "\<lparr>script = Inl (last failures) # later, attempts = attempts net + ?k\<rparr>"
  have first: "executeAll (butlast calls) (cm, net) = (?cm1, ?net1)"
    using closed zero k sc len calls
    by (intro executeAll_failures_below_threshold) auto
  have step: "execute now command timeoutMs (?cm1, ?net1)
           = (Inl (toExecuteError (last failures)),
              ?cm1\<lparr>breakerState := Open, failureCount := threshold ?cm1,
                 cooldownDeadline := now + cooldownMs ?cm1\<rparr>,
              \<lparr>script = later, attempts = Suc (attempts ?net1)\<rparr>)"
    using closed zero k by (intro execute_failure_reaching_threshold) auto
  have "executeAll calls (cm, net) = executeAll [(now, command, timeoutMs)] (?cm1, ?net1)"
    by (subst cs) (simp only: executeAll_append first)
  also have "\<dots> = (?cm1\<lparr>breakerState := Open, failureCount := threshold ?cm1,
                 cooldownDeadline := now + cooldownMs ?cm1\<rparr>,
              \<lparr>script = later, attempts = Suc (attempts ?net1)\<rparr>)"
    using step by simp
  finally show ?thesis using k lastc by simp
qed

text \<open>
  C4. Starting closed with a counter of zero, after as many consecutive calls that end in
  a transport-level failure as the threshold says (at least one), the breaker is open
  and the cool-down runs from the last of them. Every call before the deadline fails
  with \<open>CircuitOpenError\<close> and leaves the manager and the network as they were: no
  attempt is made. A call at or after the deadline that the transport answers with a
  result returns it, closes the breaker and leaves the counter at zero.
\<close>

theorem breaker_opens_fast_fails_and_recovers:
  assumes closed: "breakerState cm = Closed" and zero: "failureCount cm = 0"
    and thr: "0 < threshold cm"
    and calls: "length calls = threshold cm"
    and fails: "script net = map Inl failures @ later" and len: "length failures = threshold cm"
    and run: "executeAll calls (cm, net) = (cm', net')"
  shows "breakerState cm' = Open
     \<and> failureCount cm' = threshold cm
     \<and> cooldownDeadline cm' = fst (last calls) + cooldownMs cm
     \<and> attempts net' = attempts net + threshold cm
     \<and> (\<forall>now command timeoutMs. now < cooldownDeadline cm' \<longrightarrow>
           execute now command timeoutMs (cm', net') = (Inl CircuitOpenError, cm', net'))
     \<and> (\<forall>now command timeoutMs result rest.
           cooldownDeadline cm' \<le> now \<and> script net' = Inr result # rest \<longrightarrow>
           fst (execute now command timeoutMs (cm', net')) = Inr result
           \<and> breakerState (fst (snd (execute now command timeoutMs (cm', net')))) = Closed
           \<and> failureCount (fst (snd (execute now command timeoutMs (cm', net')))) = 0)"
proof -
  from executeAll_threshold_failures [OF closed zero thr calls fails len] run
  have cm': "cm' = cm\<lparr>breakerState := Open, failureCount := threshold cm,
                 cooldownDeadline := fst (last calls) + cooldownMs cm\<rparr>"
    and net': "net' = \<lparr>script = later, attempts = attempts net + threshold cm\<rparr>"
    by simp_all
  show ?thesis
    by (simp add: cm' net' execute_def transportRun_def recordSuccess_def)
qed

theorem breaker_opens_fast_fails_and_recovers_witness:
  "breakerState freshManager = Closed \<and> failureCount freshManager = 0
   \<and> threshold freshManager = 3 \<and> length threeCalls = 3
   \<and> script threeFailures = map Inl [ConnectionLost, TimedOut, ConnectionLost]
        @ [Inr \<lparr>stdout = ''up'', stderr = [], exitCode = 0\<rparr>]
   \<and> executeAll threeCalls (freshManager, threeFailures) = (openedManager, afterThreeFailures)
   \<and> breakerState openedManager = Open
   \<and> cooldownDeadline openedManager = 33000
   \<and> attempts afterThreeFailures = 3
   \<and> execute 4000 ''uptime'' 15000 (openedManager, afterThreeFailures)
       = (Inl CircuitOpenError, openedManager, afterThreeFailures)
   \<and> fst (execute 33000 ''uptime'' 15000 (openedManager, afterThreeFailures))
       = Inr \<lparr>stdout = ''up'', stderr = [], exitCode = 0\<rparr>
   \<and> breakerState (fst (snd (execute 33000 ''uptime'' 15000 (openedManager, afterThreeFailures)))) = Closed
   \<and> failureCount (fst (snd (execute 33000 ''uptime'' 15000 (openedManager, afterThreeFailures)))) = 0"
proof -
  have h1: "breakerState freshManager = Closed" by (simp add: freshManager_def)
  have h2: "failureCount freshManager = 0" by (simp add: freshManager_def)
  have h3: "0 < threshold freshManager" by (simp add: freshManager_def)
  have h3': "threshold freshManager = 3" by (simp add: freshManager_def)
  have h4: "length threeCalls = threshold freshManager"
    by (simp add: threeCalls_def freshManager_def)
  have h4': "length threeCalls = 3" by (simp add: threeCalls_def)
  have h5: "script threeFailures = map Inl [ConnectionLost, TimedOut, ConnectionLost]
        @ [Inr \<lparr>stdout = ''up'', stderr = [], exitCode = 0\<rparr>]"
    by (simp add: threeFailures_def)
  have h6: "length [ConnectionLost, TimedOut, ConnectionLost] = threshold freshManager"
    by (simp add: freshManager_def)
  have h7: "executeAll threeCalls (freshManager, threeFailures) = (openedManager, afterThreeFailures)"
    by (simp add: threeCalls_def freshManager_def threeFailures_def openedManager_def
        afterThreeFailures_def execute_def transportRun_def recordFailure_def)
  note t = breaker_opens_fast_fails_and_recovers [OF h1 h2 h3 h4 h5 h6 h7]
  have dl: "cooldownDeadline openedManager = 33000" by (simp add: openedManager_def)
  have sc: "script afterThreeFailures = [Inr \<lparr>stdout = ''up'', stderr = [], exitCode = 0\<rparr>]"
    by (simp add: afterThreeFailures_def)
  from t have r1: "breakerState openedManager = Open" by (rule conjunct1)
  from t have r3: "attempts afterThreeFailures = 3"
    by (simp add: threeFailures_def freshManager_def)
  from t have fast: "\<forall>now command timeoutMs. now < cooldownDeadline openedManager \<longrightarrow>
           execute now command timeoutMs (openedManager, afterThreeFailures)
             = (Inl CircuitOpenError, openedManager, afterThreeFailures)"
    by (elim conjE)
  from fast have r4: "execute 4000 ''uptime'' 15000 (openedManager, afterThreeFailures)
       = (Inl CircuitOpenError, openedManager, afterThreeFailures)"
    by (simp add: dl)
  from t have probe: "\<forall>now command timeoutMs result rest.
           cooldownDeadline openedManager \<le> now \<and> script afterThreeFailures = Inr result # rest \<longrightarrow>
           fst (execute now command timeoutMs (openedManager, afterThreeFailures)) = Inr result
           \<and> breakerState (fst (snd (execute now command timeoutMs (openedManager, afterThreeFailures)))) = Closed
           \<and> failureCount (fst (snd (execute now command timeoutMs (openedManager, afterThreeFailures)))) = 0"
    by (elim conjE)
  from probe [rule_format, of 33000 "\<lparr>stdout = ''up'', stderr = [], exitCode = 0\<rparr>" "[]" "''uptime''" 15000]
  have r5: "fst (execute 33000 ''uptime'' 15000 (openedManager, afterThreeFailures))
       = Inr \<lparr>stdout = ''up'', stderr = [], exitCode = 0\<rparr>
   \<and> breakerState (fst (snd (execute 33000 ''uptime'' 15000 (openedManager, afterThreeFailures)))) = Closed
   \<and> failureCount (fst (snd (execute 33000 ''uptime'' 15000 (openedManager, afterThreeFailures)))) = 0"
    by (simp add: dl sc)
  from h1 h2 h3' h4' h5 h7 r1 dl r3 r4 r5 show ?thesis by (intro conjI) simp_all
qed

end
